theory Spec2Isabelle
  imports Complex_Main
begin

section \<open>Staged fine-tuning of a pretrained image classifier\<close>

text \<open>
  The notebook \<^verbatim>\<open>image_classification_efficientnet_fine_tuning.ipynb\<close> builds a
  classifier on a pretrained backbone, trains the new head with the backbone frozen, and
  then unfreezes the layers whose name does not contain \<^verbatim>\<open>bn\<close>. The theory embeds
  \<^verbatim>\<open>build_model\<close>, \<^verbatim>\<open>unfreeze_model\<close>, the dataset batching and the start-up
  choice of the distribution strategy.
\<close>

subsection \<open>Strings\<close>

text \<open>Python's \<^verbatim>\<open>s.startswith(sub)\<close> and \<^verbatim>\<open>sub in s\<close> on strings.\<close>

fun startswith :: "string \<Rightarrow> string \<Rightarrow> bool" where
  "startswith s [] = True"
| "startswith [] (c # sub) = False"
| "startswith (d # s) (c # sub) = (d = c \<and> startswith s sub)"

fun str_in :: "string \<Rightarrow> string \<Rightarrow> bool" where
  "str_in sub [] = startswith [] sub"
| "str_in sub (d # s) = (startswith (d # s) sub \<or> str_in sub s)"

subsection \<open>Layers, optimizers, models\<close>

text \<open>
  A layer is the part of a Keras layer object the notebook reads or writes: its name, its
  \<^verbatim>\<open>trainable\<close> attribute and the constructor call that made it, with the layers it
  holds itself when it is a model used as a layer (none for a plain layer). The arguments
  of a constructor are those the call passes, but for \<^verbatim>\<open>RandomFlip\<close>, which carries
  the mode in effect. A layer the pretrained network brings is \<open>Pretrained\<close> with its
  class name.
\<close>

datatype flip_mode = HORIZONTAL | VERTICAL | HORIZONTAL_AND_VERTICAL

datatype layer_kind =
    Input "nat list"
  | RandomFlip flip_mode
  | RandomContrast rat
  | Resizing nat nat string
  | GlobalAveragePooling2D
  | BatchNormalization
  | Dropout rat
  | Dense nat string
  | Pretrained string

datatype layer =
  Layer (name: string) (trainable: bool) (kind: layer_kind) (sublayers: "layer list")

text \<open>
  The assignment \<^verbatim>\<open>l.trainable = value\<close>. The attribute is a property of the Keras
  layer class whose setter stores the value and assigns it to every layer that \<open>l\<close>
  holds, which does the same in turn:
  \<^verbatim>\<open>
  @trainable.setter
  def trainable(self, value):
      self._trainable = value
      for layer in getattr(self, '_layers', []):
          layer.trainable = value
  \<close>
\<close>

fun set_trainable :: "bool \<Rightarrow> layer \<Rightarrow> layer" where
  "set_trainable value (Layer nm t k subs) = Layer nm value k (map (set_trainable value) subs)"

text \<open>
  \<^verbatim>\<open>SGD(learning_rate=..., momentum=..., nesterov=...)\<close>: an argument the call leaves
  out is \<open>None\<close>. The learning rates are the decimal literals of the source, as rationals.
\<close>

record SGD =
  learning_rate :: rat
  momentum :: "rat option"
  nesterov :: "bool option"

text \<open>
  A model is the ordered list \<^verbatim>\<open>model.layers\<close> with what \<^verbatim>\<open>compile\<close> stores.
  Layer objects are shared between a model and the models built on its tensors, so an
  assignment to \<^verbatim>\<open>l.trainable\<close> is an update of the list entry. Within one model a
  layer object is taken to occur at one place.
\<close>

record model =
  model_name :: string
  layers :: "layer list"
  optimizer :: "SGD option"
  loss :: "string option"
  metrics :: "string list"

definition compile :: "model \<Rightarrow> SGD \<Rightarrow> string \<Rightarrow> string list \<Rightarrow> model" where
  "compile m opt l ms = m\<lparr>optimizer := Some opt, loss := Some l, metrics := ms\<rparr>"

subsection \<open>Unfreezing\<close>

text \<open>
  \<^verbatim>\<open>
  def unfreeze_model(model):
      for l in model.layers:
          if "bn" in l.name:
              print(f"{l.name} is staying untrainable")
          else:
              l.trainable = True

      sgd = SGD(learning_rate=0.005)
      model.compile(optimizer=sgd, loss="categorical_crossentropy", metrics=["accuracy"])
      return model
  \<close>
  The loop is \<open>unfreeze_layers\<close>: it returns the lines printed, in order, and the layers
  after the assignments.
\<close>

fun unfreeze_layers :: "layer list \<Rightarrow> string list \<times> layer list" where
  "unfreeze_layers [] = ([], [])"
| "unfreeze_layers (l # ls) =
     (let (out, ls') = unfreeze_layers ls
      in if str_in ''bn'' (name l)
         then ((name l @ '' is staying untrainable'') # out, l # ls')
         else (out, set_trainable True l # ls'))"

definition unfreeze_model :: "model \<Rightarrow> string list \<times> model" where
  "unfreeze_model m =
     (let (out, ls) = unfreeze_layers (layers m);
          sgd = \<lparr>learning_rate = 5 / 1000, momentum = None, nesterov = None\<rparr>
      in (out, compile (m\<lparr>layers := ls\<rparr>) sgd ''categorical_crossentropy'' [''accuracy'']))"


subsection \<open>What the framework supplies\<close>

text \<open>
  Three things that \<^verbatim>\<open>build_model\<close> leaves to Keras are parameters of the embedding:
  the mode of a \<^verbatim>\<open>RandomFlip\<close> built with no argument, the counters from which
  unnamed layers get their names, and the layers that
  \<^verbatim>\<open>EfficientNetB0(include_top=False, weights="imagenet")\<close> creates, with the names and
  flags the constructor gives them.
\<close>

record keras =
  RandomFlip_default_mode :: flip_mode
  uid :: "string \<Rightarrow> nat"
  EfficientNetB0_layers :: "layer list"

text \<open>Python's \<^verbatim>\<open>str(n)\<close> for a natural number.\<close>

definition digit :: "nat \<Rightarrow> char" where
  "digit d = ''0123456789'' ! d"

function str_nat :: "nat \<Rightarrow> string" where
  "str_nat n = (if n < 10 then [digit n] else str_nat (n div 10) @ [digit (n mod 10)])"
  by pat_completeness auto
termination
  by (relation "measure id") auto

declare str_nat.simps [simp del]

text \<open>
  A layer built without a name is named after its class in snake case; the first one of
  a class gets the bare name and the \<open>k\<close>-th later one the suffix \<^verbatim>\<open>_k\<close>. An input
  layer is named \<^verbatim>\<open>input_k\<close>, counted from 1. \<open>uid env p\<close> is the number of names
  already drawn for the prefix \<open>p\<close>.
\<close>

definition unique_object_name :: "keras \<Rightarrow> string \<Rightarrow> string" where
  "unique_object_name env p = (if uid env p = 0 then p else p @ ''_'' @ str_nat (uid env p))"

definition input_name :: "keras \<Rightarrow> string" where
  "input_name env = ''input'' @ ''_'' @ str_nat (Suc (uid env ''input''))"

text \<open>A new layer is trainable.\<close>

definition new_layer :: "string \<Rightarrow> layer_kind \<Rightarrow> layer" where
  "new_layer nm k = Layer nm True k []"

text \<open>
  The model that \<^verbatim>\<open>EfficientNetB0(..., input_tensor=x)\<close> returns starts at the source
  input of \<open>x\<close>: its \<^verbatim>\<open>layers\<close> are the layers \<open>x\<close> came through, then the network's.
\<close>

definition EfficientNetB0 :: "keras \<Rightarrow> layer list \<Rightarrow> layer list" where
  "EfficientNetB0 env upstream = upstream @ EfficientNetB0_layers env"

subsection \<open>Building the model\<close>

text \<open>
  \<^verbatim>\<open>
  IMG_SIZE = 224

  def build_model(n_classes):
      inputs = keras.layers.Input(shape=(32, 32, 3))
      x = inputs

      x = RandomFlip()(x)
      x = RandomContrast(0.1)(x)
      x = Resizing(IMG_SIZE, IMG_SIZE, interpolation="bilinear")(x)

      model = EfficientNetB0(include_top=False, input_tensor=x, weights="imagenet")

      # freeze the pretrained weights
      for l in model.layers:
          l.trainable = False

      # rebuild top
      x = keras.layers.GlobalAveragePooling2D(name="avg_pool")(model.output)
      x = keras.layers.BatchNormalization()(x)

      top_dropout_rate = 0.2
      x = keras.layers.Dropout(top_dropout_rate, name="top_dropout")(x)
      x = keras.layers.Dense(100, activation="softmax", name="pred")(x)

      # compile
      model = keras.Model(inputs, x, name="EfficientNet")
      sgd = SGD(learning_rate=0.2, momentum=0.1, nesterov=True)
      model.compile(optimizer=sgd, loss="categorical_crossentropy", metrics=["accuracy"])
      return model
  \<close>
\<close>

definition IMG_SIZE :: nat where
  "IMG_SIZE = 224"

definition preprocessing :: "keras \<Rightarrow> layer list" where
  "preprocessing env =
     [new_layer (unique_object_name env ''random_flip'') (RandomFlip (RandomFlip_default_mode env)),
      new_layer (unique_object_name env ''random_contrast'') (RandomContrast (1 / 10)),
      new_layer (unique_object_name env ''resizing'') (Resizing IMG_SIZE IMG_SIZE ''bilinear'')]"

definition rebuild_top :: "keras \<Rightarrow> layer list" where
  "rebuild_top env =
     (let top_dropout_rate = 2 / 10
      in [new_layer ''avg_pool'' GlobalAveragePooling2D,
          new_layer (unique_object_name env ''batch_normalization'') BatchNormalization,
          new_layer ''top_dropout'' (Dropout top_dropout_rate),
          new_layer ''pred'' (Dense 100 ''softmax'')])"

definition freeze :: "layer list \<Rightarrow> layer list" where
  "freeze ls = map (set_trainable False) ls"

definition build_model :: "keras \<Rightarrow> int \<Rightarrow> model" where
  "build_model env n_classes =
     (let inputs = new_layer (input_name env) (Input [32, 32, 3]);
          pretrained = freeze (EfficientNetB0 env (inputs # preprocessing env));
          m = \<lparr>model_name = ''EfficientNet'', layers = pretrained @ rebuild_top env,
               optimizer = None, loss = None, metrics = []\<rparr>;
          sgd = \<lparr>learning_rate = 2 / 10, momentum = Some (1 / 10), nesterov = Some True\<rparr>
      in compile m sgd ''categorical_crossentropy'' [''accuracy''])"

subsection \<open>Batching the datasets\<close>

text \<open>
  \<^verbatim>\<open>
  batch_size = 64
  ds_train = tf.data.Dataset.from_tensor_slices((x_train, y_train))
  ds_train = ds_train.cache()
  ds_train = ds_train.batch(batch_size=batch_size, drop_remainder=True)
  ds_train = ds_train.prefetch(tf.data.experimental.AUTOTUNE)

  ds_test = tf.data.Dataset.from_tensor_slices((x_test, y_test))
  ds_test = ds_test.batch(batch_size=batch_size, drop_remainder=True)
  \<close>
\<close>

text \<open>
  Modelled from the spec: \<^verbatim>\<open>Dataset.batch\<close> belongs to the data library and is not in
  the repository. The spec has the partitions "batched with a fixed batch size; batches
  are dropped if incomplete": consecutive groups of \<open>b\<close> elements in order, and a final
  shorter group that \<open>drop_remainder\<close> leaves out. A batch size of 0 gives no dataset.
\<close>

function batches :: "nat \<Rightarrow> bool \<Rightarrow> 'a list \<Rightarrow> 'a list list" where
  "batches b drop_remainder xs =
     (if b = 0 \<or> xs = [] then []
      else if length xs < b then (if drop_remainder then [] else [xs])
      else take b xs # batches b drop_remainder (drop b xs))"
  by pat_completeness auto
termination
  by (relation "measure (\<lambda>(b, d, xs). length xs)") auto

declare batches.simps [simp del]

definition batch :: "nat \<Rightarrow> bool \<Rightarrow> 'a list \<Rightarrow> 'a list list option" where
  "batch b drop_remainder xs = (if b = 0 then None else Some (batches b drop_remainder xs))"

definition batch_size :: nat where
  "batch_size = 64"

text \<open>
  A dataset is the list of its (image, label) examples; \<^verbatim>\<open>cache\<close> and
  \<^verbatim>\<open>prefetch\<close> do not change the elements.
\<close>

definition ds_train :: "'a list \<Rightarrow> 'a list list option" where
  "ds_train examples = batch batch_size True examples"

definition ds_test :: "'a list \<Rightarrow> 'a list list option" where
  "ds_test examples = batch batch_size True examples"

subsection \<open>Choosing the distribution strategy\<close>

text \<open>
  \<^verbatim>\<open>
  try:
      from cloud_tpu_client import Client

      c = Client()
      c.configure_tpu_version(tf.__version__, restart_type="always")
      tpu = tf.distribute.cluster_resolver.TPUClusterResolver()  # TPU detection
      print("Running on TPU ", tpu.cluster_spec().as_dict()["worker"])
      tf.config.experimental_connect_to_cluster(tpu)
      tf.tpu.experimental.initialize_tpu_system(tpu)
      strategy = tf.distribute.experimental.TPUStrategy(tpu)
  except ValueError:
      print("Not connected to a TPU runtime. Using CPU/GPU strategy")
      strategy = tf.distribute.MirroredStrategy()
  \<close>
  An exception is \<open>ValueError\<close> when its class is \<^verbatim>\<open>ValueError\<close> or derives from it,
  \<open>KeyError\<close> for a missing dictionary key, and \<open>OtherError\<close> with the class name
  otherwise. Each call of the \<^verbatim>\<open>try\<close> block either returns or raises; what it does is
  a field of \<open>tpu_runtime\<close>. The cluster specification is the dictionary that
  \<^verbatim>\<open>as_dict()\<close> returns, as an association list.
\<close>

datatype exn = ValueError | KeyError | OtherError string

record tpu_runtime =
  import_Client :: "exn option"
  Client :: "exn option"
  configure_tpu_version :: "exn option"
  TPUClusterResolver :: "exn option"
  cluster_spec_as_dict :: "exn + (string \<times> string list) list"
  experimental_connect_to_cluster :: "exn option"
  initialize_tpu_system :: "exn option"
  TPUStrategy_init :: "exn option"

datatype strategy = TPUStrategy | MirroredStrategy

text \<open>A call of \<^verbatim>\<open>print\<close>: a string, or a string followed by a list of strings.\<close>

datatype printed = Print string | PrintList string "string list"

text \<open>
  The \<^verbatim>\<open>try\<close> block: what it has printed, and the exception that left it or the
  strategy it assigned.
\<close>

definition try_block :: "tpu_runtime \<Rightarrow> printed list \<times> (exn + strategy)" where
  "try_block rt =
     (case import_Client rt of Some e \<Rightarrow> ([], Inl e) | None \<Rightarrow>
     (case Client rt of Some e \<Rightarrow> ([], Inl e) | None \<Rightarrow>
     (case configure_tpu_version rt of Some e \<Rightarrow> ([], Inl e) | None \<Rightarrow>
     (case TPUClusterResolver rt of Some e \<Rightarrow> ([], Inl e) | None \<Rightarrow>
     (case cluster_spec_as_dict rt of Inl e \<Rightarrow> ([], Inl e) | Inr d \<Rightarrow>
     (case map_of d ''worker'' of None \<Rightarrow> ([], Inl KeyError) | Some workers \<Rightarrow>
     (let out = [PrintList ''Running on TPU '' workers] in
     (case experimental_connect_to_cluster rt of Some e \<Rightarrow> (out, Inl e) | None \<Rightarrow>
     (case initialize_tpu_system rt of Some e \<Rightarrow> (out, Inl e) | None \<Rightarrow>
     (case TPUStrategy_init rt of Some e \<Rightarrow> (out, Inl e) | None \<Rightarrow>
        (out, Inr TPUStrategy)))))))))))"

text \<open>
  The whole statement. Only \<open>ValueError\<close> enters the handler; any other exception leaves
  the statement with no strategy assigned.
\<close>

definition select_strategy :: "tpu_runtime \<Rightarrow> printed list \<times> (exn + strategy)" where
  "select_strategy rt =
     (case try_block rt of
        (out, Inr s) \<Rightarrow> (out, Inr s)
      | (out, Inl ValueError) \<Rightarrow>
          (out @ [Print ''Not connected to a TPU runtime. Using CPU/GPU strategy''],
           Inr MirroredStrategy)
      | (out, Inl e) \<Rightarrow> (out, Inl e))"

subsection \<open>A small environment\<close>

text \<open>
  An environment for evaluating the definitions: the mode that Keras gives a
  \<^verbatim>\<open>RandomFlip\<close> built with no argument, one \<^verbatim>\<open>RandomFlip\<close> made earlier in
  the session (the notebook builds a first model before it calls \<^verbatim>\<open>build_model\<close>), and
  two layers named as in the pretrained network, a convolution and its normalization,
  standing for all of them.
\<close>

definition example_env :: keras where
  "example_env =
     \<lparr>RandomFlip_default_mode = HORIZONTAL_AND_VERTICAL,
      uid = (\<lambda>p. if p = ''random_flip'' then 1 else 0),
      EfficientNetB0_layers =
        [new_layer ''stem_conv'' (Pretrained ''Conv2D''),
         new_layer ''stem_bn'' (Pretrained ''BatchNormalization'')]\<rparr>"

text \<open>
  A model with a normalization layer that is trainable and a convolution that is not, as
  \<^verbatim>\<open>unfreeze_model\<close> may be given.
\<close>

definition example_model :: model where
  "example_model =
     \<lparr>model_name = ''m'',
      layers = [Layer ''block1a_bn'' True (Pretrained ''BatchNormalization'') [],
                Layer ''block1a_dwconv'' False (Pretrained ''DepthwiseConv2D'') []],
      optimizer = None, loss = None, metrics = []\<rparr>"


text \<open>
  A runtime in which the import, the resolver and the connection to the cluster do as
  given, every other call returns, and the cluster has one worker.
\<close>

definition runtime :: "exn option \<Rightarrow> exn option \<Rightarrow> exn option \<Rightarrow> tpu_runtime" where
  "runtime imp res conn =
     \<lparr>import_Client = imp, Client = None, configure_tpu_version = None,
      TPUClusterResolver = res,
      cluster_spec_as_dict = Inr [(''worker'', [''grpc://10.0.0.2:8470''])],
      experimental_connect_to_cluster = conn, initialize_tpu_system = None,
      TPUStrategy_init = None\<rparr>"

subsection \<open>Properties of the substring test\<close>

lemma startswith_iff: "startswith s sub \<longleftrightarrow> (\<exists>q. s = sub @ q)"
  by (induction s sub rule: startswith.induct) auto

lemma str_in_iff: "str_in sub s \<longleftrightarrow> (\<exists>p q. s = p @ sub @ q)"
proof (induction s)
  case Nil
  show ?case by (cases sub) auto
next
  case (Cons d s)
  show ?case
  proof
    assume "str_in sub (d # s)"
    then consider "startswith (d # s) sub" | "str_in sub s" by auto
    then show "\<exists>p q. d # s = p @ sub @ q"
    proof cases
      case 1
      then obtain q where "d # s = sub @ q" by (auto simp: startswith_iff)
      then have "d # s = [] @ sub @ q" by simp
      then show ?thesis by blast
    next
      case 2
      then obtain p q where "s = p @ sub @ q" using Cons.IH by blast
      then have "d # s = (d # p) @ sub @ q" by simp
      then show ?thesis by blast
    qed
  next
    assume "\<exists>p q. d # s = p @ sub @ q"
    then obtain p q where pq: "d # s = p @ sub @ q" by blast
    show "str_in sub (d # s)"
    proof (cases p)
      case Nil
      with pq have "startswith (d # s) sub" by (auto simp: startswith_iff)
      then show ?thesis by simp
    next
      case (Cons e p')
      with pq have "s = p' @ sub @ q" by simp
      then have "str_in sub s" using Cons.IH by blast
      then show ?thesis by simp
    qed
  qed
qed

subsection \<open>Properties of the assignment to \<open>trainable\<close>\<close>

lemma trainable_set_trainable [simp]: "trainable (set_trainable v l) = v"
  by (cases l) simp

lemma name_set_trainable [simp]: "name (set_trainable v l) = name l"
  by (cases l) simp

lemma kind_set_trainable [simp]: "kind (set_trainable v l) = kind l"
  by (cases l) simp

lemma sublayers_set_trainable: "sublayers (set_trainable v l) = map (set_trainable v) (sublayers l)"
  by (cases l) simp

lemma set_trainable_plain: "sublayers l = [] \<Longrightarrow> set_trainable v l = Layer (name l) v (kind l) []"
  by (cases l) simp

lemma set_trainable_all: "l' \<in> set (sublayers (set_trainable v l)) \<Longrightarrow> trainable l' = v"
  by (auto simp: sublayers_set_trainable)

subsection \<open>Properties of the unfreezing loop\<close>

lemma length_unfreeze_layers: "length (snd (unfreeze_layers ls)) = length ls"
  by (induction ls) (auto split: prod.splits)

lemma unfreeze_layers_map:
  "snd (unfreeze_layers ls) =
     map (\<lambda>l. if str_in ''bn'' (name l) then l else set_trainable True l) ls"
  by (induction ls) (auto split: prod.splits)

lemma unfreeze_layers_out:
  "fst (unfreeze_layers ls) =
     map (\<lambda>l. name l @ '' is staying untrainable'') (filter (\<lambda>l. str_in ''bn'' (name l)) ls)"
  by (induction ls) (auto split: prod.splits)

lemma layers_unfreeze_model: "layers (snd (unfreeze_model m)) = snd (unfreeze_layers (layers m))"
  by (simp add: unfreeze_model_def compile_def split: prod.splits)

subsection \<open>Names given by the framework\<close>

text \<open>
  A name made of a class name without \<^verbatim>\<open>bn\<close>, an underscore and a decimal number
  does not contain \<^verbatim>\<open>bn\<close>.
\<close>

lemma str_in_bn_no_b: "CHR ''b'' \<notin> set s \<Longrightarrow> \<not> str_in ''bn'' s"
  by (induction s) auto

lemma str_in_bn_append:
  "str_in ''bn'' (xs @ ys) \<longleftrightarrow>
     str_in ''bn'' xs \<or> str_in ''bn'' ys \<or> (xs \<noteq> [] \<and> last xs = CHR ''b'' \<and> ys \<noteq> [] \<and> hd ys = CHR ''n'')"
proof (induction xs)
  case Nil
  show ?case by simp
next
  case (Cons x xs)
  show ?case
  proof (cases xs)
    case Nil
    then show ?thesis by (cases ys) auto
  next
    case (Cons x' xs')
    with Cons.IH show ?thesis by auto
  qed
qed

lemma digit_in: "d < 10 \<Longrightarrow> digit d \<in> set ''0123456789''"
  unfolding digit_def by (rule nth_mem) simp

lemma set_str_nat: "set (str_nat n) \<subseteq> set ''0123456789''"
proof (induction n rule: str_nat.induct)
  case (1 n)
  show ?case
  proof (cases "n < 10")
    case True
    then show ?thesis using digit_in [of n] by (subst str_nat.simps) simp
  next
    case False
    have "n mod 10 < 10" by simp
    then have "digit (n mod 10) \<in> set ''0123456789''" by (rule digit_in)
    with False 1 show ?thesis by (subst str_nat.simps) simp
  qed
qed

lemma str_nat_no_b: "CHR ''b'' \<notin> set (str_nat n)"
  using set_str_nat [of n] by auto

lemma unique_object_name_no_bn:
  assumes "\<not> str_in ''bn'' p" 
  shows "\<not> str_in ''bn'' (unique_object_name env p)"
proof (cases "uid env p = 0")
  case True
  with assms show ?thesis by (simp add: unique_object_name_def)
next
  case False
  have "\<not> str_in ''bn'' (''_'' @ str_nat (uid env p))"
    by (rule str_in_bn_no_b) (simp add: str_nat_no_b)
  with assms False show ?thesis
    by (simp add: unique_object_name_def str_in_bn_append [of p])
qed

lemma rebuild_top_no_bn: "l \<in> set (rebuild_top env) \<Longrightarrow> \<not> str_in ''bn'' (name l)"
  using unique_object_name_no_bn [of "''batch_normalization''" env]
  by (auto simp: rebuild_top_def new_layer_def)

subsection \<open>Unfreezing a built model\<close>

lemma layers_build_model:
  "layers (build_model env n) =
     freeze (new_layer (input_name env) (Input [32, 32, 3]) # preprocessing env @ EfficientNetB0_layers env)
     @ rebuild_top env"
  by (simp add: build_model_def compile_def EfficientNetB0_def)

lemma freeze_not_trainable: "l \<in> set (freeze ls) \<Longrightarrow> \<not> trainable l"
  by (auto simp: freeze_def)

text \<open>
  C1. In a model that \<open>build_model\<close> returns, after \<open>unfreeze_model\<close> every layer
  whose name contains \<^verbatim>\<open>bn\<close> has \<open>trainable\<close> false: such a layer is one of the
  layers frozen by \<open>build_model\<close>, since no layer of the new top has \<^verbatim>\<open>bn\<close> in its
  name, and \<open>unfreeze_model\<close> does not assign to it.
\<close>

theorem unfreeze_build_keeps_bn_frozen:
  "\<forall>l \<in> set (layers (snd (unfreeze_model (build_model env n)))).
     str_in ''bn'' (name l) \<longrightarrow> \<not> trainable l"
proof (intro ballI impI)
  fix l
  assume mem: "l \<in> set (layers (snd (unfreeze_model (build_model env n))))"
    and bn: "str_in ''bn'' (name l)"
  from mem obtain l0 where l0: "l0 \<in> set (layers (build_model env n))"
    and l: "l = (if str_in ''bn'' (name l0) then l0 else set_trainable True l0)"
    by (auto simp: layers_unfreeze_model unfreeze_layers_map)
  from l bn have same: "l = l0" and bn0: "str_in ''bn'' (name l0)"
    by (auto split: if_splits)
  from l0 bn0 have "l0 \<in> set (freeze (new_layer (input_name env) (Input [32, 32, 3]) # preprocessing env @ EfficientNetB0_layers env))"
    using rebuild_top_no_bn [of l0 env] by (auto simp: layers_build_model)
  then show "\<not> trainable l" using same by (simp add: freeze_not_trainable)
qed


lemma layers_example:
  "layers (build_model example_env 100) =
     [Layer ''input_1'' False (Input [32, 32, 3]) [],
      Layer ''random_flip_1'' False (RandomFlip HORIZONTAL_AND_VERTICAL) [],
      Layer ''random_contrast'' False (RandomContrast (1 / 10)) [],
      Layer ''resizing'' False (Resizing 224 224 ''bilinear'') [],
      Layer ''stem_conv'' False (Pretrained ''Conv2D'') [],
      Layer ''stem_bn'' False (Pretrained ''BatchNormalization'') [],
      Layer ''avg_pool'' True GlobalAveragePooling2D [],
      Layer ''batch_normalization'' True BatchNormalization [],
      Layer ''top_dropout'' True (Dropout (2 / 10)) [],
      Layer ''pred'' True (Dense 100 ''softmax'') []]"
  by (simp add: layers_build_model freeze_def preprocessing_def rebuild_top_def new_layer_def input_name_def
      unique_object_name_def example_env_def IMG_SIZE_def str_nat.simps digit_def)

lemma layers_unfreeze_example:
  "layers (snd (unfreeze_model (build_model example_env 100))) =
     [Layer ''input_1'' True (Input [32, 32, 3]) [],
      Layer ''random_flip_1'' True (RandomFlip HORIZONTAL_AND_VERTICAL) [],
      Layer ''random_contrast'' True (RandomContrast (1 / 10)) [],
      Layer ''resizing'' True (Resizing 224 224 ''bilinear'') [],
      Layer ''stem_conv'' True (Pretrained ''Conv2D'') [],
      Layer ''stem_bn'' False (Pretrained ''BatchNormalization'') [],
      Layer ''avg_pool'' True GlobalAveragePooling2D [],
      Layer ''batch_normalization'' True BatchNormalization [],
      Layer ''top_dropout'' True (Dropout (2 / 10)) [],
      Layer ''pred'' True (Dense 100 ''softmax'') []]"
  by (simp add: layers_unfreeze_model layers_example)

theorem unfreeze_build_keeps_bn_frozen_witness:
  "(let l = layers (snd (unfreeze_model (build_model example_env 100))) ! 5
    in name l = ''stem_bn'' \<and> str_in ''bn'' (name l) \<and> \<not> trainable l)"
proof -
  let ?ls = "layers (snd (unfreeze_model (build_model example_env 100)))"
  have mem: "?ls ! 5 \<in> set ?ls" by (rule nth_mem) (simp add: layers_unfreeze_example)
  have nm: "name (?ls ! 5) = ''stem_bn''" by (simp add: layers_unfreeze_example)
  have bn: "str_in ''bn'' (name (?ls ! 5))" by (simp add: nm)
  from unfreeze_build_keeps_bn_frozen [of example_env 100] mem bn
  have "\<not> trainable (?ls ! 5)" by blast
  with nm bn show ?thesis by (simp add: Let_def)
qed

subsection \<open>Unfreezing any model\<close>

text \<open>
  C2. For every model, after \<open>unfreeze_model\<close> the layers have the names they had, and
  every layer whose name does not contain \<^verbatim>\<open>bn\<close> has \<open>trainable\<close> true.
\<close>

theorem unfreeze_model_others_trainable:
  "map name (layers (snd (unfreeze_model m))) = map name (layers m) \<and>
   (\<forall>l \<in> set (layers (snd (unfreeze_model m))). \<not> str_in ''bn'' (name l) \<longrightarrow> trainable l)"
  by (auto simp: layers_unfreeze_model unfreeze_layers_map)

lemma layers_unfreeze_example_model:
  "layers (snd (unfreeze_model example_model)) =
     [Layer ''block1a_bn'' True (Pretrained ''BatchNormalization'') [],
      Layer ''block1a_dwconv'' True (Pretrained ''DepthwiseConv2D'') []]"
  by (simp add: layers_unfreeze_model example_model_def)

theorem unfreeze_model_others_trainable_witness:
  "(let l = layers (snd (unfreeze_model example_model)) ! 1
    in name l = ''block1a_dwconv'' \<and> \<not> str_in ''bn'' (name l) \<and> \<not> trainable (layers example_model ! 1)
       \<and> trainable l)"
proof -
  let ?ls = "layers (snd (unfreeze_model example_model))"
  have mem: "?ls ! 1 \<in> set ?ls" by (rule nth_mem) (simp add: layers_unfreeze_example_model)
  have nm: "name (?ls ! 1) = ''block1a_dwconv''" by (simp add: layers_unfreeze_example_model)
  have nbn: "\<not> str_in ''bn'' (name (?ls ! 1))" by (simp add: layers_unfreeze_example_model)
  from unfreeze_model_others_trainable [of example_model] mem nbn
  have "trainable (?ls ! 1)" by blast
  moreover have "\<not> trainable (layers example_model ! 1)" by (simp add: example_model_def)
  ultimately show ?thesis using nm nbn by (simp add: Let_def)
qed




subsection \<open>The built model\<close>

lemma length_preprocessing: "length (preprocessing env) = 3"
  by (simp add: preprocessing_def)

text \<open>
  C3. For every \<open>n_classes\<close>, in the model that \<open>build_model\<close> returns, the layers of
  the pretrained network follow the input and the three preprocessing layers, each with
  \<open>trainable\<close> false whatever it was when the network was created. The four layers before
  them, which the loop over \<^verbatim>\<open>model.layers\<close> also reaches, are not trainable either.
\<close>

theorem build_model_pretrained_frozen:
  "(\<forall>i < length (EfficientNetB0_layers env).
      layers (build_model env n) ! (4 + i) = set_trainable False (EfficientNetB0_layers env ! i) \<and>
      \<not> trainable (layers (build_model env n) ! (4 + i))) \<and>
   (\<forall>i < 4. \<not> trainable (layers (build_model env n) ! i))"
proof -
  have a: "layers (build_model env n) =
      freeze (new_layer (input_name env) (Input [32, 32, 3]) # preprocessing env) @
      (freeze (EfficientNetB0_layers env) @ rebuild_top env)"
    by (simp add: layers_build_model freeze_def)
  have b: "length (freeze (new_layer (input_name env) (Input [32, 32, 3]) # preprocessing env)) = 4"
    by (simp add: freeze_def length_preprocessing)
  have c: "\<forall>i < length (EfficientNetB0_layers env).
      layers (build_model env n) ! (4 + i) = set_trainable False (EfficientNetB0_layers env ! i)"
    using b by (simp add: a nth_append freeze_def)
  have d: "\<forall>i < 4. \<not> trainable (layers (build_model env n) ! i)"
  proof (intro allI impI)
    fix i :: nat assume "i < 4"
    then have "layers (build_model env n) ! i \<in> set (freeze (new_layer (input_name env) (Input [32, 32, 3]) # preprocessing env))"
      using b by (simp add: a nth_append)
    then show "\<not> trainable (layers (build_model env n) ! i)" by (rule freeze_not_trainable)
  qed
  from c d show ?thesis by simp
qed

theorem build_model_pretrained_frozen_witness:
  "trainable (EfficientNetB0_layers example_env ! 0) \<and>
   name (layers (build_model example_env 100) ! 4) = ''stem_conv'' \<and>
   \<not> trainable (layers (build_model example_env 100) ! 4)"
proof -
  have len: "0 < length (EfficientNetB0_layers example_env)" by (simp add: example_env_def)
  from build_model_pretrained_frozen [of example_env 100] len
  have "layers (build_model example_env 100) ! (4 + 0) = set_trainable False (EfficientNetB0_layers example_env ! 0)"
    by blast
  then show ?thesis by (simp add: example_env_def new_layer_def)
qed

text \<open>
  C9. \<open>build_model\<close> does not use \<open>n_classes\<close>: the model is the same for every
  value, and its last layer is the dense softmax layer \<^verbatim>\<open>pred\<close> with 100 units.
\<close>

theorem build_model_ignores_n_classes:
  "build_model env n = build_model env n' \<and>
   last (layers (build_model env n)) = Layer ''pred'' True (Dense 100 ''softmax'') []"
  by (simp add: build_model_def compile_def rebuild_top_def new_layer_def)

text \<open>
  C7, as stated, has a random horizontal flip first. The call is \<^verbatim>\<open>RandomFlip()\<close>,
  so the mode is the constructor's default, which in Keras is
  \<^verbatim>\<open>horizontal_and_vertical\<close>: in \<open>example_env\<close> the flip is not a horizontal one.
\<close>

theorem build_model_flip_counterexample:
  "kind (layers (build_model example_env 100) ! 1) = RandomFlip HORIZONTAL_AND_VERTICAL \<and>
   kind (layers (build_model example_env 100) ! 1) \<noteq> RandomFlip HORIZONTAL"
  by (simp add: layers_example)

text \<open>
  C7, amended. For every environment and every \<open>n_classes\<close>, the model starts with the
  input layer, a random flip in the mode that \<^verbatim>\<open>RandomFlip\<close> has when built with no
  argument, a random contrast adjustment of factor 0.1 and a bilinear resize to
  224 by 224, in this order; the frozen pretrained network and the new top follow.
\<close>

theorem build_model_preprocessing:
  "map kind (take 4 (layers (build_model env n))) =
     [Input [32, 32, 3], RandomFlip (RandomFlip_default_mode env), RandomContrast (1 / 10),
      Resizing 224 224 ''bilinear''] \<and>
   drop 4 (layers (build_model env n)) = freeze (EfficientNetB0_layers env) @ rebuild_top env"
  by (simp add: layers_build_model freeze_def preprocessing_def new_layer_def IMG_SIZE_def)

subsection \<open>Learning rates\<close>

text \<open>
  C8. The learning rate that \<open>build_model\<close> compiles with, 0.2, is greater than the
  learning rate that \<open>unfreeze_model\<close> compiles with, 0.005, as rationals.
\<close>

theorem head_learning_rate_greater:
  "\<exists>sgd2 sgd3. optimizer (build_model env n) = Some sgd2 \<and>
      optimizer (snd (unfreeze_model m)) = Some sgd3 \<and>
      learning_rate sgd2 = 2 / 10 \<and> learning_rate sgd3 = 5 / 1000 \<and>
      learning_rate sgd3 < learning_rate sgd2"
  by (simp add: build_model_def unfreeze_model_def compile_def split: prod.splits)

subsection \<open>Batches\<close>

lemma batches_full: "0 < b \<Longrightarrow> \<forall>x \<in> set (batches b True xs). length x = b"
proof (induction b "True" xs rule: batches.induct)
  case (1 b xs)
  show ?case
  proof (cases "xs = [] \<or> length xs < b")
    case True
    then show ?thesis by (subst batches.simps) auto
  next
    case False
    with 1 show ?thesis by (subst batches.simps) auto
  qed
qed

lemma length_batches: "0 < b \<Longrightarrow> length (batches b True xs) = length xs div b"
proof (induction b "True" xs rule: batches.induct)
  case (1 b xs)
  show ?case
  proof (cases "xs = [] \<or> length xs < b")
    case True
    then show ?thesis by (subst batches.simps) auto
  next
    case False
    then have ge: "b \<le> length xs" and ne: "xs \<noteq> []" by auto
    from 1 False have "length (batches b True (drop b xs)) = (length xs - b) div b" by simp
    with ge ne 1(2) show ?thesis by (subst batches.simps) (simp add: le_div_geq)
  qed
qed

lemma concat_batches: "0 < b \<Longrightarrow> concat (batches b True xs) = take (length xs div b * b) xs"
proof (induction b "True" xs rule: batches.induct)
  case (1 b xs)
  show ?case
  proof (cases "xs = [] \<or> length xs < b")
    case True
    then show ?thesis by (subst batches.simps) auto
  next
    case False
    then have ge: "b \<le> length xs" and ne: "xs \<noteq> []" by auto
    from 1 False have ih: "concat (batches b True (drop b xs)) = take ((length xs - b) div b * b) (drop b xs)"
      by simp
    have "take (length xs div b * b) xs = take (b + (length xs - b) div b * b) xs"
      using ge 1(2) by (simp add: le_div_geq)
    also have "\<dots> = take b xs @ take ((length xs - b) div b * b) (drop b xs)"
      by (simp add: take_add)
    finally show ?thesis using ge ne 1(2) ih by (subst batches.simps) simp
  qed
qed

text \<open>
  C4. With a batch size \<open>b > 0\<close> and \<open>drop_remainder\<close> true, batching \<open>n\<close> examples
  gives \<open>n div b\<close> batches of exactly \<open>b\<close> elements each, which are the first
  \<open>n div b * b\<close> examples in order. With the notebook's batch size 64, 97 examples give
  the one batch of the first 64, for the training and for the test dataset.
\<close>

theorem batch_drop_remainder:
  "0 < b \<Longrightarrow>
     (\<exists>bs. batch b True xs = Some bs \<and> length bs = length xs div b \<and>
        (\<forall>x \<in> set bs. length x = b) \<and> concat bs = take (length xs div b * b) xs) \<and>
     (length xs = 97 \<longrightarrow> ds_train xs = Some [take 64 xs] \<and> ds_test xs = Some [take 64 xs])"
proof -
  assume b: "0 < b"
  then have 1: "\<exists>bs. batch b True xs = Some bs \<and> length bs = length xs div b \<and>
        (\<forall>x \<in> set bs. length x = b) \<and> concat bs = take (length xs div b * b) xs"
    by (simp add: batch_def length_batches batches_full concat_batches)
  have 2: "batches 64 True xs = [take 64 xs]" if "length xs = 97"
  proof -
    have "length (batches 64 True xs) = 1" using that by (simp add: length_batches)
    then obtain x where x: "batches 64 True xs = [x]"
      by (cases "batches 64 True xs") auto
    then have "concat (batches 64 True xs) = x" by simp
    then have "x = take 64 xs" using that by (simp add: concat_batches)
    with x show ?thesis by simp
  qed
  from 1 2 show ?thesis by (simp add: ds_train_def ds_test_def batch_def batch_size_def)
qed

theorem batch_drop_remainder_witness:
  "(0::nat) < 64 \<and> length [0..<97] = 97 \<and> ds_train [0..<97] = Some [[0..<64]] \<and>
   (\<exists>bs. batch 64 True [0..<97] = Some bs \<and> length bs = 1 \<and> (\<forall>x \<in> set bs. length x = 64))"
proof -
  have h: "(0::nat) < 64" by simp
  from batch_drop_remainder [OF h, of "[0..<97]"]
  show ?thesis by auto
qed

lemma batch_keep_remainder_example: "map length (batches 64 False [0..<97]) = [64, 33]"
  by (simp add: batches.simps)

subsection \<open>Strategy selection\<close>

lemma select_strategy_ValueError:
  "snd (try_block rt) = Inl ValueError \<Longrightarrow>
     select_strategy rt =
       (fst (try_block rt) @ [Print ''Not connected to a TPU runtime. Using CPU/GPU strategy''],
        Inr MirroredStrategy)"
  by (cases "try_block rt") (simp add: select_strategy_def)

lemma select_strategy_other:
  "snd (try_block rt) = Inl e \<Longrightarrow> e \<noteq> ValueError \<Longrightarrow> select_strategy rt = try_block rt"
  by (cases "try_block rt"; cases e) (simp_all add: select_strategy_def)

lemma select_strategy_returns:
  "snd (try_block rt) = Inr s \<Longrightarrow> select_strategy rt = try_block rt"
  by (cases "try_block rt") (simp add: select_strategy_def)

lemma try_block_resolver_raises:
  "import_Client rt = None \<Longrightarrow> Client rt = None \<Longrightarrow> configure_tpu_version rt = None \<Longrightarrow>
   TPUClusterResolver rt = Some e \<Longrightarrow> try_block rt = ([], Inl e)"
  by (simp add: try_block_def)

lemma try_block_returns:
  "snd (try_block rt) = Inr s \<longleftrightarrow>
     s = TPUStrategy \<and> import_Client rt = None \<and> Client rt = None \<and> configure_tpu_version rt = None \<and>
     TPUClusterResolver rt = None \<and>
     (\<exists>d workers. cluster_spec_as_dict rt = Inr d \<and> map_of d ''worker'' = Some workers) \<and>
     experimental_connect_to_cluster rt = None \<and> initialize_tpu_system rt = None \<and>
     TPUStrategy_init rt = None"
  by (auto simp: try_block_def Let_def split: option.splits sum.splits)

lemma try_block_printed:
  "snd (try_block rt) = Inr s \<Longrightarrow> cluster_spec_as_dict rt = Inr d \<Longrightarrow>
     map_of d ''worker'' = Some workers \<Longrightarrow>
     fst (try_block rt) = [PrintList ''Running on TPU '' workers]"
  by (auto simp: try_block_def Let_def split: option.splits sum.splits)

text \<open>
  C5. The accelerator-cluster resolution is the \<^verbatim>\<open>try\<close> block. When the resolver call
  raises a value error, and whenever the block is left by a value error, the handler
  prints its message and the strategy is the mirrored one. When the block returns, the
  workers of the cluster specification have been printed and the strategy is the TPU
  strategy. An exception that is not a value error is not caught: it leaves the whole
  statement, with what the block had printed and no strategy assigned.
\<close>

theorem select_strategy_fallback:
  "(import_Client rt = None \<and> Client rt = None \<and> configure_tpu_version rt = None \<and>
    TPUClusterResolver rt = Some ValueError \<longrightarrow>
      select_strategy rt =
        ([Print ''Not connected to a TPU runtime. Using CPU/GPU strategy''], Inr MirroredStrategy)) \<and>
   (snd (try_block rt) = Inl ValueError \<longrightarrow>
      select_strategy rt =
        (fst (try_block rt) @ [Print ''Not connected to a TPU runtime. Using CPU/GPU strategy''],
         Inr MirroredStrategy)) \<and>
   (\<forall>s. snd (try_block rt) = Inr s \<longrightarrow>
      (\<exists>d workers. cluster_spec_as_dict rt = Inr d \<and> map_of d ''worker'' = Some workers \<and>
         select_strategy rt = ([PrintList ''Running on TPU '' workers], Inr TPUStrategy))) \<and>
   (\<forall>e. snd (try_block rt) = Inl e \<and> e \<noteq> ValueError \<longrightarrow>
      select_strategy rt = (fst (try_block rt), Inl e))"
proof (intro conjI allI impI)
  assume "import_Client rt = None \<and> Client rt = None \<and> configure_tpu_version rt = None \<and>
    TPUClusterResolver rt = Some ValueError"
  then have "try_block rt = ([], Inl ValueError)" by (simp add: try_block_resolver_raises)
  then show "select_strategy rt =
        ([Print ''Not connected to a TPU runtime. Using CPU/GPU strategy''], Inr MirroredStrategy)"
    by (simp add: select_strategy_def)
next
  assume "snd (try_block rt) = Inl ValueError"
  then show "select_strategy rt =
        (fst (try_block rt) @ [Print ''Not connected to a TPU runtime. Using CPU/GPU strategy''],
         Inr MirroredStrategy)"
    by (rule select_strategy_ValueError)
next
  fix s assume r: "snd (try_block rt) = Inr s"
  then obtain d workers where d: "cluster_spec_as_dict rt = Inr d" "map_of d ''worker'' = Some workers"
    and s: "s = TPUStrategy"
    by (auto simp: try_block_returns)
  from r d have "fst (try_block rt) = [PrintList ''Running on TPU '' workers]"
    by (rule try_block_printed)
  with r s have "select_strategy rt = ([PrintList ''Running on TPU '' workers], Inr TPUStrategy)"
    by (simp add: select_strategy_returns prod_eq_iff)
  with d show "\<exists>d workers. cluster_spec_as_dict rt = Inr d \<and> map_of d ''worker'' = Some workers \<and>
         select_strategy rt = ([PrintList ''Running on TPU '' workers], Inr TPUStrategy)"
    by blast
next
  fix e assume "snd (try_block rt) = Inl e \<and> e \<noteq> ValueError"
  then show "select_strategy rt = (fst (try_block rt), Inl e)"
    by (simp add: select_strategy_other prod_eq_iff)
qed

theorem select_strategy_fallback_witness:
  "select_strategy (runtime None (Some ValueError) None) =
     ([Print ''Not connected to a TPU runtime. Using CPU/GPU strategy''], Inr MirroredStrategy) \<and>
   select_strategy (runtime None None (Some ValueError)) =
     ([PrintList ''Running on TPU '' [''grpc://10.0.0.2:8470''],
       Print ''Not connected to a TPU runtime. Using CPU/GPU strategy''], Inr MirroredStrategy) \<and>
   select_strategy (runtime None None None) =
     ([PrintList ''Running on TPU '' [''grpc://10.0.0.2:8470'']], Inr TPUStrategy) \<and>
   select_strategy (runtime (Some (OtherError ''ImportError'')) None None) =
     ([], Inl (OtherError ''ImportError''))"
proof -
  have t2: "try_block (runtime None None (Some ValueError)) =
      ([PrintList ''Running on TPU '' [''grpc://10.0.0.2:8470'']], Inl ValueError)"
    by (simp add: try_block_def runtime_def)
  have t3: "try_block (runtime None None None) =
      ([PrintList ''Running on TPU '' [''grpc://10.0.0.2:8470'']], Inr TPUStrategy)"
    by (simp add: try_block_def runtime_def)
  have t4: "try_block (runtime (Some (OtherError ''ImportError'')) None None) =
      ([], Inl (OtherError ''ImportError''))"
    by (simp add: try_block_def runtime_def)
  have 1: "select_strategy (runtime None (Some ValueError) None) =
     ([Print ''Not connected to a TPU runtime. Using CPU/GPU strategy''], Inr MirroredStrategy)"
    using select_strategy_fallback [of "runtime None (Some ValueError) None"]
    by (simp add: runtime_def)
  have 2: "select_strategy (runtime None None (Some ValueError)) =
     ([PrintList ''Running on TPU '' [''grpc://10.0.0.2:8470''],
       Print ''Not connected to a TPU runtime. Using CPU/GPU strategy''], Inr MirroredStrategy)"
    using select_strategy_fallback [of "runtime None None (Some ValueError)"]
    by (simp add: t2)
  have 3: "select_strategy (runtime None None None) =
     ([PrintList ''Running on TPU '' [''grpc://10.0.0.2:8470'']], Inr TPUStrategy)"
    using select_strategy_fallback [of "runtime None None None"]
    by (simp add: t3) (simp add: runtime_def)
  have 4: "select_strategy (runtime (Some (OtherError ''ImportError'')) None None) =
     ([], Inl (OtherError ''ImportError''))"
    using select_strategy_fallback [of "runtime (Some (OtherError ''ImportError'')) None None"]
    by (simp add: t4)
  from 1 2 3 4 show ?thesis by simp
qed

end
